theory Spec2Isabelle
  imports Main "HOL-Library.Sublist"
begin

section \<open>The admin API client (ApiClient) of adminjs\<close>

text \<open>
  The development embeds the browser-side \<^verbatim>\<open>ApiClient\<close> class: \<^verbatim>\<open>searchRecords\<close>,
  \<^verbatim>\<open>resourceAction\<close>, \<^verbatim>\<open>recordAction\<close>, \<^verbatim>\<open>bulkAction\<close>, \<^verbatim>\<open>getToken\<close>, \<^verbatim>\<open>getCookie\<close>,
  \<^verbatim>\<open>setCookie\<close> and the helper \<^verbatim>\<open>checkResponse\<close>.

  Conventions of the embedding.
  \<^item> A JavaScript string is an Isabelle \<open>string\<close>, read as the UTF-8 bytes of the text
    (ASCII text is itself).
  \<^item> An object is the list of its property definitions in the order they were made; a later
    definition of a key overrides an earlier one, exactly as in an object literal with
    spreads. So \<^verbatim>\<open>{a, ...o, b}\<close> is \<open>[a] @ o @ [b]\<close>, and reading a property looks from the end.
  \<^item> An asynchronous method is a function from the environment to the list of effects it
    performs (in order) and either the value it resolves with or the error it rejects with.
  \<^item> \<^verbatim>\<open>console.log\<close> output is not modelled.
\<close>

subsection \<open>Values and objects\<close>

text \<open>
  The values that pass through the client: \<^verbatim>\<open>undefined\<close>, \<^verbatim>\<open>null\<close>, booleans, integral numbers
  and \<^verbatim>\<open>NaN\<close>, strings, arrays, plain objects, and a \<^verbatim>\<open>URLSearchParams\<close> with its entries.
\<close>

datatype jsval =
    JUndefined
  | JNull
  | JBool bool
  | JNum int
  | JNaN
  | JStr string
  | JArr "jsval list"
  | JObj "(string \<times> jsval) list"
  | JURLSearchParams "(string \<times> string) list"

type_synonym obj = "(string \<times> jsval) list"

text \<open>Truthiness, as \<^verbatim>\<open>if (x)\<close>, \<^verbatim>\<open>x ? a : b\<close> and \<^verbatim>\<open>x || y\<close> test it.\<close>

fun truthy :: "jsval \<Rightarrow> bool" where
  "truthy JUndefined = False"
| "truthy JNull = False"
| "truthy (JBool b) = b"
| "truthy (JNum n) = (n \<noteq> 0)"
| "truthy JNaN = False"
| "truthy (JStr s) = (s \<noteq> [])"
| "truthy (JArr xs) = True"
| "truthy (JObj ps) = True"
| "truthy (JURLSearchParams ps) = True"

definition lookup_prop :: "(string \<times> 'v) list \<Rightarrow> string \<Rightarrow> 'v option" where
  "lookup_prop ps k = map_of (rev ps) k"

definition has_key :: "(string \<times> 'v) list \<Rightarrow> string \<Rightarrow> bool" where
  "has_key ps k = (k \<in> set (map fst ps))"

text \<open>\<^verbatim>\<open>o.k\<close> and \<^verbatim>\<open>o[k]\<close> on a plain object, for a key that \<^verbatim>\<open>Object.prototype\<close> does not define.\<close>

definition get_prop :: "obj \<Rightarrow> string \<Rightarrow> jsval" where
  "get_prop ps k = (case lookup_prop ps k of Some v \<Rightarrow> v | None \<Rightarrow> JUndefined)"

text \<open>The rest pattern \<^verbatim>\<open>const { k1, ..., kn, ...rest } = o\<close>.\<close>

definition omit :: "string list \<Rightarrow> (string \<times> 'v) list \<Rightarrow> (string \<times> 'v) list" where
  "omit ks ps = filter (\<lambda>p. fst p \<notin> set ks) ps"

subsection \<open>Numerals and enumeration order\<close>

definition digit_char :: "nat \<Rightarrow> char" where
  "digit_char d = ''0123456789ABCDEF'' ! d"

text \<open>The decimal numeral of a natural number.\<close>

fun decimal :: "nat \<Rightarrow> string" where
  "decimal n = (if 10 \<le> n then decimal (n div 10) @ [digit_char (n mod 10)] else [digit_char n])"

declare decimal.simps [simp del]

text \<open>\<^verbatim>\<open>String(n)\<close> for an integral number below \<open>10\<^sup>2\<^sup>1\<close> in magnitude.\<close>

definition number_to_string :: "int \<Rightarrow> string" where
  "number_to_string i = (if i < 0 then ''-'' @ decimal (nat (- i)) else decimal (nat i))"

definition is_digit :: "char \<Rightarrow> bool" where
  "is_digit c = (c \<in> set ''0123456789'')"

definition nat_of_digits :: "string \<Rightarrow> nat" where
  "nat_of_digits s = foldl (\<lambda>n c. 10 * n + (of_char c - 48)) 0 s"

text \<open>
  An array index is the canonical numeral of an integer in \<open>0 .. 2\<^sup>3\<^sup>2 - 2\<close>. The own keys
  of an object are enumerated with the array indices first, ascending, then the other keys
  in the order of their first definition.
\<close>

definition array_index :: "string \<Rightarrow> nat option" where
  "array_index k =
     (if k \<noteq> [] \<and> list_all is_digit k \<and> (k = ''0'' \<or> hd k \<noteq> CHR ''0'')
         \<and> nat_of_digits k < 4294967295
      then Some (nat_of_digits k) else None)"

fun first_occurrences :: "'a list \<Rightarrow> 'a list" where
  "first_occurrences [] = []"
| "first_occurrences (x # xs) = x # filter (\<lambda>y. y \<noteq> x) (first_occurrences xs)"

definition own_keys :: "(string \<times> 'v) list \<Rightarrow> string list" where
  "own_keys ps =
     (let ks = first_occurrences (map fst ps)
      in sort_key (\<lambda>k. case array_index k of Some i \<Rightarrow> i | None \<Rightarrow> 0)
           (filter (\<lambda>k. array_index k \<noteq> None) ks)
         @ filter (\<lambda>k. array_index k = None) ks)"

text \<open>
  The properties a spread \<^verbatim>\<open>{...v}\<close> copies. A string spreads into its characters (one per
  character of the model's string).
\<close>

fun own_props :: "jsval \<Rightarrow> obj" where
  "own_props (JObj ps) = ps"
| "own_props (JArr xs) = map (\<lambda>i. (decimal i, xs ! i)) [0 ..< length xs]"
| "own_props (JStr s) = map (\<lambda>i. (decimal i, JStr [s ! i])) [0 ..< length s]"
| "own_props v = []"

subsection \<open>Strings\<close>

text \<open>\<^verbatim>\<open>xs.join(sep)\<close> on an array of strings.\<close>

fun join :: "string \<Rightarrow> string list \<Rightarrow> string" where
  "join sep [] = []"
| "join sep [x] = x"
| "join sep (x # y # ys) = x @ sep @ join sep (y # ys)"

text \<open>\<^verbatim>\<open>s.toUpperCase()\<close> on ASCII text.\<close>

definition toUpperCase :: "string \<Rightarrow> string" where
  "toUpperCase s =
     map (\<lambda>c. if 97 \<le> (of_char c :: nat) \<and> (of_char c :: nat) \<le> 122
              then char_of ((of_char c :: nat) - 32) else c) s"

text \<open>
  \<^verbatim>\<open>encodeURIComponent\<close>: the unreserved characters stay, every other byte of the UTF-8 text
  becomes \<^verbatim>\<open>%XX\<close> in upper-case hexadecimal.
\<close>

definition unreserved :: "char \<Rightarrow> bool" where
  "unreserved c =
     (c \<in> set ''ABCDEFGHIJKLMNOPQRSTUVWXYZabcdefghijklmnopqrstuvwxyz0123456789-_.!~*()''
      \<or> c = CHR 0x27)"

definition encodeURIComponent :: "string \<Rightarrow> string" where
  "encodeURIComponent s =
     concat (map (\<lambda>c. if unreserved c then [c]
                      else [CHR ''%'', digit_char (of_char c div 16), digit_char (of_char c mod 16)]) s)"

subsection \<open>Errors\<close>

text \<open>A thrown value: an \<^verbatim>\<open>Error\<close> object with its \<^verbatim>\<open>name\<close> and \<^verbatim>\<open>message\<close>.\<close>

datatype exn = Exn (exn_name: string) (exn_message: string)

text \<open>\<^verbatim>\<open>`${error}`\<close>, that is \<^verbatim>\<open>Error.prototype.toString\<close>.\<close>

definition exn_to_string :: "exn \<Rightarrow> string" where
  "exn_to_string e =
     (if exn_name e = [] then exn_message e
      else if exn_message e = [] then exn_name e
      else exn_name e @ '': '' @ exn_message e)"

definition new_Error :: "string \<Rightarrow> exn" where
  "new_Error msg = Exn ''Error'' msg"

definition URIError :: exn where
  "URIError = Exn ''URIError'' ''URI malformed''"

definition ReferenceError :: "string \<Rightarrow> exn" where
  "ReferenceError x = Exn ''ReferenceError'' (x @ '' is not defined'')"

definition TypeError :: "string \<Rightarrow> exn" where
  "TypeError msg = Exn ''TypeError'' msg"

subsection \<open>decodeURIComponent\<close>

text \<open>
  \<^verbatim>\<open>decodeURIComponent\<close> replaces every \<^verbatim>\<open>%XX\<close> by its byte and throws a \<^verbatim>\<open>URIError\<close> when
  a \<^verbatim>\<open>%\<close> is not followed by two hexadecimal digits or when the escaped bytes from 128 on
  are not the UTF-8 encoding of code points, each written wholly in escapes.
\<close>

definition hex_value :: "char \<Rightarrow> nat option" where
  "hex_value c =
     (let n = (of_char c :: nat)
      in if 48 \<le> n \<and> n \<le> 57 then Some (n - 48)
         else if 65 \<le> n \<and> n \<le> 70 then Some (n - 55)
         else if 97 \<le> n \<and> n \<le> 102 then Some (n - 87)
         else None)"

datatype token = Lit char | Esc nat

fun escapes :: "string \<Rightarrow> token list option" where
  "escapes [] = Some []"
| "escapes (c # cs) =
     (if c = CHR ''%''
      then (case cs of
              h1 # h2 # rest \<Rightarrow>
                (case (hex_value h1, hex_value h2) of
                   (Some a, Some b) \<Rightarrow> map_option (Cons (Esc (16 * a + b))) (escapes rest)
                 | _ \<Rightarrow> None)
            | _ \<Rightarrow> None)
      else map_option (Cons (Lit c)) (escapes cs))"

text \<open>The length of the UTF-8 sequence a byte starts; 0 for a byte that starts none.\<close>

definition utf8_length :: "nat \<Rightarrow> nat" where
  "utf8_length b =
     (if b < 0x80 then 1
      else if 0xC0 \<le> b \<and> b < 0xE0 then 2
      else if 0xE0 \<le> b \<and> b < 0xF0 then 3
      else if 0xF0 \<le> b \<and> b < 0xF8 then 4
      else 0)"

definition continuation :: "nat \<Rightarrow> bool" where
  "continuation b = (0x80 \<le> b \<and> b \<le> 0xBF)"

fun valid_utf8 :: "nat list \<Rightarrow> bool" where
  "valid_utf8 [b0, b1] = (0xC2 \<le> b0 \<and> b0 \<le> 0xDF \<and> continuation b1)"
| "valid_utf8 [b0, b1, b2] =
     (((b0 = 0xE0 \<and> 0xA0 \<le> b1 \<and> b1 \<le> 0xBF)
       \<or> (0xE1 \<le> b0 \<and> b0 \<le> 0xEC \<and> continuation b1)
       \<or> (b0 = 0xED \<and> 0x80 \<le> b1 \<and> b1 \<le> 0x9F)
       \<or> (0xEE \<le> b0 \<and> b0 \<le> 0xEF \<and> continuation b1))
      \<and> continuation b2)"
| "valid_utf8 [b0, b1, b2, b3] =
     (((b0 = 0xF0 \<and> 0x90 \<le> b1 \<and> b1 \<le> 0xBF)
       \<or> (0xF1 \<le> b0 \<and> b0 \<le> 0xF3 \<and> continuation b1)
       \<or> (b0 = 0xF4 \<and> 0x80 \<le> b1 \<and> b1 \<le> 0x8F))
      \<and> continuation b2 \<and> continuation b3)"
| "valid_utf8 bs = False"

fun esc_bytes :: "token list \<Rightarrow> nat list option" where
  "esc_bytes [] = Some []"
| "esc_bytes (Esc b # ts) = map_option (Cons b) (esc_bytes ts)"
| "esc_bytes (Lit c # ts) = None"

fun decode_tokens :: "token list \<Rightarrow> string option" where
  "decode_tokens [] = Some []"
| "decode_tokens (Lit c # ts) = map_option (Cons c) (decode_tokens ts)"
| "decode_tokens (Esc b # ts) =
     (let n = utf8_length b
      in if n = 0 \<or> length ts < n - 1 then None
         else (case esc_bytes (take (n - 1) ts) of
                 None \<Rightarrow> None
               | Some bs \<Rightarrow>
                   if n = 1 \<or> valid_utf8 (b # bs)
                   then map_option (\<lambda>r. map char_of (b # bs) @ r) (decode_tokens (drop (n - 1) ts))
                   else None))"

definition decodeURIComponent :: "string \<Rightarrow> exn + string" where
  "decodeURIComponent s =
     (case escapes s of
        None \<Rightarrow> Inl URIError
      | Some ts \<Rightarrow> (case decode_tokens ts of None \<Rightarrow> Inl URIError | Some r \<Rightarrow> Inr r))"

subsection \<open>The environment and the effects\<close>

text \<open>
  Modelled from the spec: \<^verbatim>\<open>CsrfTokenInterface\<close> (the interface file is not among the
  sources), the token endpoint's body \<^verbatim>\<open>{ sk: string, "max-age-seconds": number }\<close>.
\<close>

record CsrfTokenInterface =
  sk :: string
  max_age_seconds :: int

text \<open>
  What the client reads of a response of the transport: its body \<^verbatim>\<open>response.data\<close> and
  \<^verbatim>\<open>response.request.responseURL\<close>.
\<close>

record AxiosResponse =
  response_data :: jsval
  responseURL :: string

text \<open>\<^verbatim>\<open>REDUX_STATE.paths\<close> of the host page.\<close>

record Paths =
  loginPath :: string
  rootPath :: string

text \<open>
  The environment of one call: \<^verbatim>\<open>globalAny.isOnServer\<close>; \<^verbatim>\<open>document.cookie\<close> (\<open>None\<close> where
  \<^verbatim>\<open>document\<close> is not defined); \<^verbatim>\<open>location.origin\<close>; \<^verbatim>\<open>REDUX_STATE\<close> (\<open>None\<close> when the
  host page has not set it); the regular-expression engine behind
  \<^verbatim>\<open>responseURL.match(loginUrl)\<close>, which given the pattern and the subject throws or tells
  whether there is a match; and the two transport clients, which given a request resolve
  with a response or reject with an error.
\<close>

record env =
  isOnServer :: bool
  document_cookie :: "string option"
  location_origin :: string
  REDUX_STATE :: "Paths option"
  regexp_match :: "string \<Rightarrow> string \<Rightarrow> exn + bool"
  client_request :: "obj \<Rightarrow> exn + AxiosResponse"
  csrfClient_get :: "string \<Rightarrow> exn + CsrfTokenInterface"

text \<open>
  The effects of a call: \<^verbatim>\<open>this.client.request(config)\<close>, \<^verbatim>\<open>this.csrfClient.get(url)\<close>, an
  assignment to \<^verbatim>\<open>document.cookie\<close>, \<^verbatim>\<open>alert(message)\<close> and \<^verbatim>\<open>location.assign(url)\<close>.
\<close>

datatype event =
    ClientRequest obj
  | CsrfClientGet string
  | SetDocumentCookie string
  | Alert string
  | LocationAssign string

type_synonym 'a io = "event list \<times> (exn + 'a)"

definition return_io :: "'a \<Rightarrow> 'a io" where
  "return_io x = ([], Inr x)"

definition throw_io :: "exn \<Rightarrow> 'a io" where
  "throw_io e = ([], Inl e)"

definition bind_io :: "'a io \<Rightarrow> ('a \<Rightarrow> 'b io) \<Rightarrow> 'b io" where
  "bind_io m f =
     (case m of
        (t, Inl e) \<Rightarrow> (t, Inl e)
      | (t, Inr x) \<Rightarrow> (case f x of (t', r) \<Rightarrow> (t @ t', r)))"

text \<open>\<^verbatim>\<open>try { m } catch (error) { h error }\<close>.\<close>

definition catch_io :: "'a io \<Rightarrow> (exn \<Rightarrow> 'a io) \<Rightarrow> 'a io" where
  "catch_io m h =
     (case m of
        (t, Inl e) \<Rightarrow> (case h e of (t', r) \<Rightarrow> (t @ t', r))
      | (t, Inr x) \<Rightarrow> (t, Inr x))"

definition requests_of :: "'a io \<Rightarrow> obj list" where
  "requests_of m = concat (map (\<lambda>ev. case ev of ClientRequest c \<Rightarrow> [c] | _ \<Rightarrow> []) (fst m))"

definition token_requests_of :: "'a io \<Rightarrow> string list" where
  "token_requests_of m = concat (map (\<lambda>ev. case ev of CsrfClientGet u \<Rightarrow> [u] | _ \<Rightarrow> []) (fst m))"

subsection \<open>Cookies\<close>

text \<open>
  A \<^verbatim>\<open>Date\<close> object, by what its two conversions return: \<^verbatim>\<open>toUTCString()\<close> and
  \<^verbatim>\<open>toString()\<close> (local time).
\<close>

datatype Date = Date (toUTCString: string) (Date_toString: string)

text \<open>
  The values of a cookie option: the \<^verbatim>\<open>CookieOptions\<close> type has strings, numbers and dates;
  the loop of \<^verbatim>\<open>setCookie\<close> also tests for \<^verbatim>\<open>true\<close>, and an optional field may be undefined.
\<close>

datatype optval = OUndefined | OBool bool | ONum int | OStr string | ODate Date

type_synonym CookieOptions = "(string \<times> optval) list"

text \<open>The conversion to string made by \<^verbatim>\<open>"=" + optionValue\<close>.\<close>

fun to_string :: "optval \<Rightarrow> string" where
  "to_string OUndefined = ''undefined''"
| "to_string (OBool b) = (if b then ''true'' else ''false'')"
| "to_string (ONum n) = number_to_string n"
| "to_string (OStr s) = s"
| "to_string (ODate d) = Date_toString d"

definition get_option :: "CookieOptions \<Rightarrow> string \<Rightarrow> optval" where
  "get_option options k = (case lookup_prop options k of Some v \<Rightarrow> v | None \<Rightarrow> OUndefined)"

text \<open>
  The regular expression of \<^verbatim>\<open>getCookie\<close> escapes every syntax character of the name, so
  it matches the text \<^verbatim>\<open>name=\<close> at the start of the string or \<^verbatim>\<open>; name=\<close> anywhere, leftmost
  first, and captures the longest run without a semicolon that follows.
\<close>

definition capture :: "string \<Rightarrow> string \<Rightarrow> string option" where
  "capture p s =
     (if prefix p s then Some (takeWhile (\<lambda>c. c \<noteq> CHR '';'') (drop (length p) s)) else None)"

fun scan :: "string \<Rightarrow> string \<Rightarrow> string option" where
  "scan p [] = capture p []"
| "scan p (c # cs) = (case capture p (c # cs) of Some m \<Rightarrow> Some m | None \<Rightarrow> scan p cs)"

definition cookie_match :: "string \<Rightarrow> string \<Rightarrow> string option" where
  "cookie_match name cookie =
     (case capture (name @ ''='') cookie of
        Some m \<Rightarrow> Some m
      | None \<Rightarrow> scan (''; '' @ name @ ''='') cookie)"

definition getCookie :: "env \<Rightarrow> string \<Rightarrow> (string option) io" where
  "getCookie e name =
     (case document_cookie e of
        None \<Rightarrow> throw_io (ReferenceError ''document'')
      | Some cookie \<Rightarrow>
          (case cookie_match name cookie of
             None \<Rightarrow> return_io None
           | Some m \<Rightarrow>
               (case decodeURIComponent m of
                  Inl err \<Rightarrow> throw_io err
                | Inr v \<Rightarrow> return_io (Some v))))"

text \<open>
  The first two statements of \<^verbatim>\<open>setCookie\<close>: the default path under the caller's options, and
  a \<^verbatim>\<open>Date\<close> under \<^verbatim>\<open>expires\<close> replaced by its \<^verbatim>\<open>toUTCString()\<close>.
\<close>

definition cookie_options :: "CookieOptions \<Rightarrow> CookieOptions" where
  "cookie_options options0 =
     (let options1 = [(''path'', OStr ''/'')] @ options0
      in (case get_option options1 ''expires'' of
            ODate d \<Rightarrow> options1 @ [(''expires'', OStr (toUTCString d))]
          | _ \<Rightarrow> options1))"

text \<open>The string \<^verbatim>\<open>updatedCookie\<close> that \<^verbatim>\<open>setCookie\<close> builds in its \<^verbatim>\<open>for ... in\<close> loop.\<close>

definition updatedCookie :: "string \<Rightarrow> string \<Rightarrow> CookieOptions \<Rightarrow> string" where
  "updatedCookie name val options0 =
     (let options = cookie_options options0
      in foldl (\<lambda>acc optionKey.
                  (let acc' = acc @ ''; '' @ optionKey;
                       optionValue = get_option options optionKey
                   in if optionValue \<noteq> OBool True then acc' @ ''='' @ to_string optionValue
                      else acc'))
           (encodeURIComponent name @ ''='' @ encodeURIComponent val)
           (own_keys options))"

definition setCookie :: "env \<Rightarrow> string \<Rightarrow> string \<Rightarrow> CookieOptions \<Rightarrow> unit io" where
  "setCookie e name val options =
     (case document_cookie e of
        None \<Rightarrow> throw_io (ReferenceError ''document'')
      | Some _ \<Rightarrow> ([SetDocumentCookie (updatedCookie name val options)], Inr ()))"

subsection \<open>The token\<close>

text \<open>The \<^verbatim>\<open>try\<close> block of \<^verbatim>\<open>getToken\<close> with its \<^verbatim>\<open>catch\<close>; the token client is asked for the URL \<^verbatim>\<open>''\<close>.\<close>

definition requestToken :: "env \<Rightarrow> string io" where
  "requestToken e =
     catch_io
       (bind_io ([CsrfClientGet []], csrfClient_get e []) (\<lambda>csrfTokenResponse.
        bind_io (setCookie e ''sk'' (sk csrfTokenResponse)
                   [(''max-age'', ONum (max_age_seconds csrfTokenResponse))]) (\<lambda>_.
        return_io (sk csrfTokenResponse))))
       (\<lambda>error. throw_io (new_Error (''CSRF token error: '' @ exn_to_string error)))"

definition getToken :: "env \<Rightarrow> string io" where
  "getToken e =
     bind_io (getCookie e ''sk'') (\<lambda>tokenFromCookie.
       (case tokenFromCookie of
          None \<Rightarrow> requestToken e
        | Some t \<Rightarrow> if t \<noteq> [] then return_io t else requestToken e))"

subsection \<open>The session check\<close>

definition checkResponse :: "env \<Rightarrow> AxiosResponse \<Rightarrow> unit io" where
  "checkResponse e response =
     (if isOnServer e then return_io ()
      else (case REDUX_STATE e of
              None \<Rightarrow> throw_io (TypeError ''Cannot read properties of undefined'')
            | Some paths \<Rightarrow>
                (let loginUrl = location_origin e @ loginPath paths
                 in if responseURL response \<noteq> []
                    then (case regexp_match e loginUrl (responseURL response) of
                            Inl err \<Rightarrow> throw_io err
                          | Inr matched \<Rightarrow>
                              if matched
                              then ([Alert ''Your session expired. You will be redirected to login screen'',
                                     LocationAssign loginUrl], Inr ())
                              else return_io ())
                    else return_io ())))"

subsection \<open>The actions\<close>

text \<open>
  The options of an action: \<^verbatim>\<open>ActionAPIParams = AxiosRequestConfig & ActionParams\<close>. The
  fields the methods take out by name are fields of the record; \<open>config\<close> holds the other
  properties of the options object (the rest of the \<^verbatim>\<open>AxiosRequestConfig\<close>: \<^verbatim>\<open>method\<close>,
  \<^verbatim>\<open>headers\<close>, \<^verbatim>\<open>params\<close>, \<^verbatim>\<open>url\<close>, ...). An absent \<^verbatim>\<open>data\<close> is \<open>JUndefined\<close>.
\<close>

record ActionAPIParams =
  resourceId :: string
  actionName :: string
  data :: jsval
  config :: obj

record ResourceActionAPIParams = ActionAPIParams +
  query :: "string option"

record RecordActionAPIParams = ActionAPIParams +
  recordId :: string

record BulkActionAPIParams = ActionAPIParams +
  recordIds :: "string list option"

text \<open>\<^verbatim>\<open>this.client.request(config)\<close>.\<close>

definition request :: "env \<Rightarrow> obj \<Rightarrow> AxiosResponse io" where
  "request e c = ([ClientRequest c], client_request e c)"

text \<open>
  The statement \<^verbatim>\<open>axiosParams.headers = { ...axiosParams.headers, 'X-Csrf-Token': csrfToken }\<close>.
\<close>

definition with_csrf :: "obj \<Rightarrow> string \<Rightarrow> obj" where
  "with_csrf axiosParams csrfToken =
     axiosParams
     @ [(''headers'',
         JObj (own_props (get_prop axiosParams ''headers'') @ [(''X-Csrf-Token'', JStr csrfToken)]))]"

definition resourceAction :: "env \<Rightarrow> ResourceActionAPIParams \<Rightarrow> AxiosResponse io" where
  "resourceAction e options =
     (let axiosParams0 = omit [''resourceId'', ''actionName'', ''data'', ''query''] (config options);
          url0 = ''/api/resources/'' @ resourceId options @ ''/actions/'' @ actionName options;
          method = (if truthy (data options) then ''POST'' else ''GET'')
      in bind_io (if method = ''POST''
                  then bind_io (getToken e) (\<lambda>csrfToken. return_io (with_csrf axiosParams0 csrfToken))
                  else return_io axiosParams0) (\<lambda>axiosParams.
         (let url = (case query options of
                       None \<Rightarrow> url0
                     | Some q \<Rightarrow> if q \<noteq> [] then join ''/'' [url0, encodeURIComponent q] else url0)
          in bind_io (request e ([(''url'', JStr url), (''method'', JStr method)]
                                  @ axiosParams @ [(''data'', data options)])) (\<lambda>response.
             bind_io (checkResponse e response) (\<lambda>_.
             return_io response)))))"

definition recordAction :: "env \<Rightarrow> RecordActionAPIParams \<Rightarrow> AxiosResponse io" where
  "recordAction e options =
     (let axiosParams0 = omit [''resourceId'', ''recordId'', ''actionName'', ''data''] (config options);
          method = (if truthy (data options) then ''POST'' else ''GET'')
      in bind_io (if method = ''POST''
                  then bind_io (getToken e) (\<lambda>csrfToken. return_io (with_csrf axiosParams0 csrfToken))
                  else return_io axiosParams0) (\<lambda>axiosParams.
         bind_io (request e ([(''url'', JStr (''/api/resources/'' @ resourceId options @ ''/records/''
                                              @ recordId options @ ''/'' @ actionName options)),
                              (''method'', JStr method)]
                             @ axiosParams @ [(''data'', data options)])) (\<lambda>response.
         bind_io (checkResponse e response) (\<lambda>_.
         return_io response))))"

definition bulkAction :: "env \<Rightarrow> BulkActionAPIParams \<Rightarrow> AxiosResponse io" where
  "bulkAction e options =
     (let axiosParams0 = omit [''resourceId'', ''recordIds'', ''actionName'', ''data''] (config options);
          method = (if truthy (get_prop axiosParams0 ''method'') \<or> truthy (data options)
                    then ''POST'' else ''GET'')
      in bind_io (if toUpperCase method = ''POST''
                  then bind_io (getToken e) (\<lambda>csrfToken. return_io (with_csrf axiosParams0 csrfToken))
                  else return_io axiosParams0) (\<lambda>axiosParams.
         (let params = JURLSearchParams
                         [(''recordIds'',
                           join '','' (case recordIds options of None \<Rightarrow> [] | Some ids \<Rightarrow> ids))]
          in bind_io (request e ([(''url'', JStr (''/api/resources/'' @ resourceId options @ ''/bulk/''
                                                  @ actionName options)),
                                  (''method'', JStr method)]
                                 @ axiosParams @ [(''data'', data options), (''params'', params)])) (\<lambda>response.
             bind_io (checkResponse e response) (\<lambda>_.
             return_io response)))))"

text \<open>
  \<^verbatim>\<open>response.data.records\<close>: reading a property of \<^verbatim>\<open>undefined\<close> or \<^verbatim>\<open>null\<close> throws; a value
  that is not an object has no property \<^verbatim>\<open>records\<close>.
\<close>

definition get_member :: "jsval \<Rightarrow> string \<Rightarrow> jsval io" where
  "get_member v k =
     (case v of
        JUndefined \<Rightarrow> throw_io (TypeError ''Cannot read properties of undefined'')
      | JNull \<Rightarrow> throw_io (TypeError ''Cannot read properties of null'')
      | JObj ps \<Rightarrow> return_io (get_prop ps k)
      | _ \<Rightarrow> return_io JUndefined)"

record SearchParams =
  search_resourceId :: string
  search_query :: string
  searchProperty :: "string option"

definition searchRecords :: "env \<Rightarrow> SearchParams \<Rightarrow> jsval io" where
  "searchRecords e p =
     (if isOnServer e then return_io (JArr [])
      else bind_io (resourceAction e
                      \<lparr>resourceId = search_resourceId p,
                       actionName = ''search'',
                       data = JUndefined,
                       config = (case searchProperty p of
                                   None \<Rightarrow> []
                                 | Some sp \<Rightarrow>
                                     if sp \<noteq> []
                                     then [(''params'', JObj [(''searchProperty'', JStr sp)])]
                                     else []),
                       query = Some (search_query p)\<rparr>) (\<lambda>response.
           bind_io (checkResponse e response) (\<lambda>_.
           get_member (response_data response) ''records'')))"

subsection \<open>What a call sent\<close>

text \<open>
  The requests a call handed to the transport are read off its effects (\<open>requests_of\<close>);
  these are the \<^verbatim>\<open>method\<close>, the \<^verbatim>\<open>url\<close>, the \<^verbatim>\<open>params\<close> and a header of each of them.
\<close>

definition header :: "obj \<Rightarrow> string \<Rightarrow> jsval" where
  "header c k = (case get_prop c ''headers'' of JObj hs \<Rightarrow> get_prop hs k | _ \<Rightarrow> JUndefined)"

definition issued_methods :: "'a io \<Rightarrow> jsval list" where
  "issued_methods m = map (\<lambda>c. get_prop c ''method'') (requests_of m)"

definition issued_urls :: "'a io \<Rightarrow> jsval list" where
  "issued_urls m = map (\<lambda>c. get_prop c ''url'') (requests_of m)"

definition issued_params :: "'a io \<Rightarrow> jsval list" where
  "issued_params m = map (\<lambda>c. get_prop c ''params'') (requests_of m)"

definition issued_csrf_headers :: "'a io \<Rightarrow> jsval list" where
  "issued_csrf_headers m = map (\<lambda>c. header c ''X-Csrf-Token'') (requests_of m)"

subsection \<open>Example environments\<close>

text \<open>
  A browser page at \<^verbatim>\<open>http://localhost:3000\<close> with the given \<^verbatim>\<open>document.cookie\<close>: no response
  is a redirect to the login page, every request is answered with an empty list of records,
  and the token endpoint answers \<^verbatim>\<open>{ sk: 'abc', "max-age-seconds": 3600 }\<close>.
\<close>

definition browser :: "string \<Rightarrow> env" where
  "browser cookie =
     \<lparr>isOnServer = False,
      document_cookie = Some cookie,
      location_origin = ''http://localhost:3000'',
      REDUX_STATE = Some \<lparr>loginPath = ''/admin/login'', rootPath = ''/admin''\<rparr>,
      regexp_match = (\<lambda>pattern subject. Inr False),
      client_request = (\<lambda>c. Inr \<lparr>response_data = JObj [(''records'', JArr [])],
                                   responseURL = ''http://localhost:3000/admin/api''\<rparr>),
      csrfClient_get = (\<lambda>u. Inr \<lparr>sk = ''abc'', max_age_seconds = 3600\<rparr>)\<rparr>"

text \<open>The same page when the token endpoint is down.\<close>

definition browser_offline :: "string \<Rightarrow> env" where
  "browser_offline cookie =
     (browser cookie)\<lparr>csrfClient_get := (\<lambda>u. Inl (Exn ''Error'' ''Network Error''))\<rparr>"

text \<open>Server-side rendering: no \<^verbatim>\<open>window\<close>, no \<^verbatim>\<open>document\<close>.\<close>

definition server :: env where
  "server = (browser [])\<lparr>isOnServer := True, document_cookie := None\<rparr>"

section \<open>Properties\<close>

subsection \<open>Objects, effects and the requests of the actions\<close>

named_theorems io_simps

lemma lookup_prop_append:
  "lookup_prop (a @ b) k = (case lookup_prop b k of Some v \<Rightarrow> Some v | None \<Rightarrow> lookup_prop a k)"
  unfolding lookup_prop_def by (simp add: map_add_def)

lemma lookup_prop_None: "(lookup_prop ps k = None) = (\<not> has_key ps k)"
  by (simp add: lookup_prop_def has_key_def map_of_eq_None_iff)

lemma get_prop_append:
  "get_prop (a @ b) k = (if has_key b k then get_prop b k else get_prop a k)"
  using lookup_prop_None [of b k]
  by (auto simp: get_prop_def lookup_prop_append split: option.splits)

lemma get_option_append:
  "get_option (a @ b) k = (if has_key b k then get_option b k else get_option a k)"
  using lookup_prop_None [of b k]
  by (auto simp: get_option_def lookup_prop_append split: option.splits)

lemma has_key_append: "has_key (a @ b) k = (has_key a k \<or> has_key b k)"
  by (auto simp: has_key_def)

lemma has_key_Cons: "has_key ((k', v) # ps) k = (k = k' \<or> has_key ps k)"
  by (auto simp: has_key_def)

lemma has_key_Nil: "has_key [] k = False"
  by (simp add: has_key_def)

lemma get_prop_Nil: "get_prop [] k = JUndefined"
  by (simp add: get_prop_def lookup_prop_def)

lemma get_prop_single: "get_prop [(k, v)] k = v"
  by (simp add: get_prop_def lookup_prop_def)

lemma has_key_omit: "has_key (omit ks ps) k = (has_key ps k \<and> k \<notin> set ks)"
  by (auto simp: has_key_def omit_def)

lemma map_of_filter_keys:
  "k \<notin> set ks \<Longrightarrow> map_of (filter (\<lambda>p. fst p \<notin> set ks) xs) k = map_of xs k"
  by (induction xs) auto

lemma get_prop_omit: "k \<notin> set ks \<Longrightarrow> get_prop (omit ks ps) k = get_prop ps k"
  by (simp add: get_prop_def lookup_prop_def omit_def rev_filter map_of_filter_keys)

lemma get_prop_no_key: "\<not> has_key ps k \<Longrightarrow> get_prop ps k = JUndefined"
  using lookup_prop_None [of ps k] by (simp add: get_prop_def)

lemma fst_bind_io [io_simps]:
  "fst (bind_io m f) = fst m @ (case snd m of Inl err \<Rightarrow> [] | Inr x \<Rightarrow> fst (f x))"
  by (cases m; cases "snd m") (auto simp: bind_io_def split: prod.splits)

lemma snd_bind_io [io_simps]:
  "snd (bind_io m f) = (case snd m of Inl err \<Rightarrow> Inl err | Inr x \<Rightarrow> snd (f x))"
  by (cases m; cases "snd m") (auto simp: bind_io_def split: prod.splits)

lemma requests_of_append:
  "requests_of (t @ t', r) = requests_of (t, r') @ requests_of (t', r'')"
  by (simp add: requests_of_def)

lemma requests_of_bind_io [io_simps]:
  "requests_of (bind_io m f)
     = requests_of m @ (case snd m of Inl err \<Rightarrow> [] | Inr x \<Rightarrow> requests_of (f x))"
  by (cases m; cases "snd m") (auto simp: bind_io_def requests_of_def split: prod.splits)

lemma requests_of_return_io [io_simps]: "requests_of (return_io x) = []"
  by (simp add: requests_of_def return_io_def)

lemma requests_of_throw_io [io_simps]: "requests_of (throw_io x) = []"
  by (simp add: requests_of_def throw_io_def)

lemma snd_return_io [io_simps]: "snd (return_io x) = Inr x"
  by (simp add: return_io_def)

lemma fst_return_io [io_simps]: "fst (return_io x) = []"
  by (simp add: return_io_def)

lemma requests_of_request [io_simps]: "requests_of (request e c) = [c]"
  by (simp add: requests_of_def request_def)

lemma snd_request [io_simps]: "snd (request e c) = client_request e c"
  by (simp add: request_def)

lemma requests_of_checkResponse [io_simps]: "requests_of (checkResponse e r) = []"
  by (simp add: requests_of_def checkResponse_def return_io_def throw_io_def Let_def
      split: option.splits sum.splits)

lemma fst_getCookie: "fst (getCookie e name) = []"
  by (simp add: getCookie_def return_io_def throw_io_def split: option.splits sum.splits)

lemma requests_of_requestToken: "requests_of (requestToken e) = []"
  by (cases "csrfClient_get e []")
     (auto simp: requestToken_def catch_io_def bind_io_def setCookie_def requests_of_def
        return_io_def throw_io_def split: option.splits sum.splits prod.splits)

lemma requests_of_getCookie [io_simps]: "requests_of (getCookie e name) = []"
  by (simp add: requests_of_def fst_getCookie)

lemma requests_of_getToken [io_simps]: "requests_of (getToken e) = []"
  by (cases "snd (getCookie e ''sk'')")
     (auto simp: getToken_def io_simps requests_of_requestToken split: option.splits)

lemma requests_of_send [io_simps]:
  "requests_of (bind_io (request e c) (\<lambda>response.
                  bind_io (checkResponse e response) (\<lambda>_. return_io response))) = [c]"
  by (simp add: requests_of_bind_io requests_of_request requests_of_checkResponse
      requests_of_return_io split: sum.splits)

lemma requests_of_resourceAction:
  "requests_of (resourceAction e ro) =
     (if truthy (data ro)
      then (case snd (getToken e) of
              Inl err \<Rightarrow> []
            | Inr tok \<Rightarrow>
                [[(''url'', JStr (case query ro of
                                   None \<Rightarrow> ''/api/resources/'' @ resourceId ro @ ''/actions/'' @ actionName ro
                                 | Some q \<Rightarrow>
                                     if q \<noteq> []
                                     then ''/api/resources/'' @ resourceId ro @ ''/actions/'' @ actionName ro
                                          @ ''/'' @ encodeURIComponent q
                                     else ''/api/resources/'' @ resourceId ro @ ''/actions/'' @ actionName ro)),
                  (''method'', JStr ''POST'')]
                 @ with_csrf (omit [''resourceId'', ''actionName'', ''data'', ''query''] (config ro)) tok
                 @ [(''data'', data ro)]])
      else [[(''url'', JStr (case query ro of
                               None \<Rightarrow> ''/api/resources/'' @ resourceId ro @ ''/actions/'' @ actionName ro
                             | Some q \<Rightarrow>
                                 if q \<noteq> []
                                 then ''/api/resources/'' @ resourceId ro @ ''/actions/'' @ actionName ro
                                      @ ''/'' @ encodeURIComponent q
                                 else ''/api/resources/'' @ resourceId ro @ ''/actions/'' @ actionName ro)),
             (''method'', JStr ''GET'')]
            @ omit [''resourceId'', ''actionName'', ''data'', ''query''] (config ro)
            @ [(''data'', data ro)]])"
  by (cases "snd (getToken e)")
     (simp_all add: resourceAction_def Let_def io_simps cong: sum.case_cong option.case_cong if_cong)


lemma requests_of_recordAction:
  "requests_of (recordAction e rc) =
     (if truthy (data rc)
      then (case snd (getToken e) of
              Inl err \<Rightarrow> []
            | Inr tok \<Rightarrow>
                [[(''url'', JStr (''/api/resources/'' @ resourceId rc @ ''/records/'' @ recordId rc
                                 @ ''/'' @ actionName rc)),
                  (''method'', JStr ''POST'')]
                 @ with_csrf (omit [''resourceId'', ''recordId'', ''actionName'', ''data''] (config rc)) tok
                 @ [(''data'', data rc)]])
      else [[(''url'', JStr (''/api/resources/'' @ resourceId rc @ ''/records/'' @ recordId rc
                             @ ''/'' @ actionName rc)),
             (''method'', JStr ''GET'')]
            @ omit [''resourceId'', ''recordId'', ''actionName'', ''data''] (config rc)
            @ [(''data'', data rc)]])"
  by (cases "snd (getToken e)")
     (simp_all add: recordAction_def Let_def io_simps cong: sum.case_cong option.case_cong if_cong)

lemma toUpperCase_POST: "toUpperCase ''POST'' = ''POST''"
  by (simp add: toUpperCase_def)

lemma toUpperCase_GET: "toUpperCase ''GET'' = ''GET''"
  by (simp add: toUpperCase_def)

lemma requests_of_bulkAction:
  "requests_of (bulkAction e bo) =
     (if truthy (get_prop (config bo) ''method'') \<or> truthy (data bo)
      then (case snd (getToken e) of
              Inl err \<Rightarrow> []
            | Inr tok \<Rightarrow>
                [[(''url'', JStr (''/api/resources/'' @ resourceId bo @ ''/bulk/'' @ actionName bo)),
                  (''method'', JStr ''POST'')]
                 @ with_csrf (omit [''resourceId'', ''recordIds'', ''actionName'', ''data''] (config bo)) tok
                 @ [(''data'', data bo),
                    (''params'', JURLSearchParams
                       [(''recordIds'', join '','' (case recordIds bo of None \<Rightarrow> [] | Some ids \<Rightarrow> ids))])]])
      else [[(''url'', JStr (''/api/resources/'' @ resourceId bo @ ''/bulk/'' @ actionName bo)),
             (''method'', JStr ''GET'')]
            @ omit [''resourceId'', ''recordIds'', ''actionName'', ''data''] (config bo)
            @ [(''data'', data bo),
               (''params'', JURLSearchParams
                  [(''recordIds'', join '','' (case recordIds bo of None \<Rightarrow> [] | Some ids \<Rightarrow> ids))])]])"
  by (cases "snd (getToken e)")
     (simp_all add: bulkAction_def Let_def io_simps get_prop_omit toUpperCase_POST toUpperCase_GET
        cong: sum.case_cong option.case_cong if_cong)

lemma get_prop_Cons:
  "get_prop ((k', v) # ps) k = (if has_key ps k then get_prop ps k else if k = k' then v else JUndefined)"
  using get_prop_append [of "[(k', v)]" ps k]
  by (simp add: get_prop_def lookup_prop_def)

lemma get_prop_with_csrf:
  "k \<noteq> ''headers'' \<Longrightarrow> get_prop (with_csrf ax tok) k = get_prop ax k"
  by (simp add: with_csrf_def get_prop_append has_key_Cons has_key_Nil)

lemma has_key_with_csrf:
  "k \<noteq> ''headers'' \<Longrightarrow> has_key (with_csrf ax tok) k = has_key ax k"
  by (simp add: with_csrf_def has_key_append has_key_Cons has_key_Nil)

lemma header_with_csrf:
  "get_prop (with_csrf ax tok) ''headers''
     = JObj (own_props (get_prop ax ''headers'') @ [(''X-Csrf-Token'', JStr tok)])"
  by (simp add: with_csrf_def get_prop_append has_key_Cons has_key_Nil get_prop_Cons)

lemmas config_simps =
  get_prop_append get_prop_Cons get_prop_Nil has_key_append has_key_Cons has_key_Nil
  has_key_omit get_prop_omit get_prop_with_csrf has_key_with_csrf get_prop_no_key

lemma has_headers_with_csrf: "has_key (with_csrf ax tok) ''headers''"
  by (simp add: with_csrf_def has_key_append has_key_Cons)

lemma header_of_csrf_config:
  "\<not> has_key rest ''headers'' \<Longrightarrow>
   header (front @ with_csrf ax tok @ rest) ''X-Csrf-Token'' = JStr tok"
  by (simp add: header_def get_prop_append has_key_append has_headers_with_csrf header_with_csrf
      has_key_Cons has_key_Nil get_prop_Cons)

lemma header_of_issued_config:
  "\<not> has_key rest ''headers'' \<Longrightarrow>
   header (p # q # with_csrf ax tok @ rest) ''X-Csrf-Token'' = JStr tok"
  using header_of_csrf_config [of rest "[p, q]" ax tok] by simp

lemma fst_bulkAction_POST:
  "truthy (get_prop (config bo) ''method'') \<or> truthy (data bo) \<Longrightarrow>
   prefix (fst (getToken e)) (fst (bulkAction e bo))"
  by (simp add: bulkAction_def Let_def fst_bind_io get_prop_omit toUpperCase_POST)

lemma snd_bulkAction_POST_fails:
  "truthy (get_prop (config bo) ''method'') \<or> truthy (data bo) \<Longrightarrow>
   snd (getToken e) = Inl err \<Longrightarrow> bulkAction e bo = (fst (getToken e), Inl err)"
  by (simp add: bulkAction_def Let_def fst_bind_io snd_bind_io get_prop_omit toUpperCase_POST
      prod_eq_iff)

subsection \<open>The token and the cookie\<close>

lemma token_requests_of_bind_io:
  "token_requests_of (bind_io m f)
     = token_requests_of m @ (case snd m of Inl err \<Rightarrow> [] | Inr x \<Rightarrow> token_requests_of (f x))"
  by (cases m; cases "snd m") (auto simp: bind_io_def token_requests_of_def split: prod.splits)

lemma token_requests_of_Nil: "token_requests_of ([], r) = []"
  by (simp add: token_requests_of_def)

lemma getCookie_cases:
  obtains (undefined_document) "document_cookie e = None"
      "getCookie e name = ([], Inl (ReferenceError ''document''))"
    | (malformed) cookie err where "document_cookie e = Some cookie"
      "getCookie e name = ([], Inl err)"
    | (found) cookie v where "document_cookie e = Some cookie"
      "getCookie e name = ([], Inr v)"
proof (cases "document_cookie e")
  case None
  then show ?thesis
    using undefined_document by (simp add: getCookie_def throw_io_def)
next
  case (Some cookie)
  show ?thesis
  proof (cases "snd (getCookie e name)")
    case (Inl err)
    then have "getCookie e name = ([], Inl err)"
      using fst_getCookie [of e name] by (simp add: prod_eq_iff)
    then show ?thesis using malformed Some by blast
  next
    case (Inr v)
    then have "getCookie e name = ([], Inr v)"
      using fst_getCookie [of e name] by (simp add: prod_eq_iff)
    then show ?thesis using found Some by blast
  qed
qed

lemma requestToken_fails:
  "csrfClient_get e [] = Inl err \<Longrightarrow>
   requestToken e = ([CsrfClientGet []], Inl (new_Error (''CSRF token error: '' @ exn_to_string err)))"
  by (simp add: requestToken_def catch_io_def bind_io_def throw_io_def)


lemma encodeURIComponent_sk: "encodeURIComponent ''sk'' = ''sk''"
  by (simp add: encodeURIComponent_def unreserved_def)



subsection \<open>The search\<close>

lemma snd_send:
  "snd (bind_io (request e c) (\<lambda>response.
          bind_io (checkResponse e response) (\<lambda>_. return_io response)))
     = (case client_request e c of
          Inl err \<Rightarrow> Inl err
        | Inr response \<Rightarrow>
            (case snd (checkResponse e response) of
               Inl err \<Rightarrow> Inl err
             | Inr u \<Rightarrow> Inr response))"
  by (simp add: snd_bind_io snd_request snd_return_io cong: sum.case_cong)

lemma snd_resourceAction_GET:
  "\<not> truthy (data ro) \<Longrightarrow> requests_of (resourceAction e ro) = [c] \<Longrightarrow>
   snd (resourceAction e ro)
     = (case client_request e c of
          Inl err \<Rightarrow> Inl err
        | Inr response \<Rightarrow>
            (case snd (checkResponse e response) of
               Inl err \<Rightarrow> Inl err
             | Inr u \<Rightarrow> Inr response))"
  by (simp add: requests_of_resourceAction)
     (simp add: resourceAction_def Let_def snd_bind_io snd_return_io snd_request
        cong: option.case_cong if_cong sum.case_cong)

lemma token_requests_of_checkResponse: "token_requests_of (checkResponse e r) = []"
  by (simp add: token_requests_of_def checkResponse_def return_io_def throw_io_def Let_def
      split: option.splits sum.splits)

lemma token_requests_of_return_io: "token_requests_of (return_io x) = []"
  by (simp add: return_io_def token_requests_of_def)

lemma token_requests_of_request: "token_requests_of (request e c) = []"
  by (simp add: request_def token_requests_of_def)

lemma fst_get_member: "fst (get_member v k) = []"
  by (cases v) (simp_all add: get_member_def return_io_def throw_io_def)

lemma requests_of_get_member: "requests_of (get_member v k) = []"
  by (simp add: requests_of_def fst_get_member)

lemma token_requests_of_get_member: "token_requests_of (get_member v k) = []"
  by (simp add: token_requests_of_def fst_get_member)

lemmas token_simps =
  token_requests_of_bind_io token_requests_of_return_io token_requests_of_request
  token_requests_of_checkResponse token_requests_of_get_member

lemma token_requests_of_resourceAction_GET:
  "\<not> truthy (data ro) \<Longrightarrow> token_requests_of (resourceAction e ro) = []"
  by (simp add: resourceAction_def Let_def token_simps cong: sum.case_cong)

subsection \<open>The cookie string\<close>

lemma foldl_append_concat: "foldl (\<lambda>acc k. acc @ f k) init ks = init @ concat (map f ks)"
  by (induction ks arbitrary: init) simp_all

lemma set_first_occurrences: "set (first_occurrences xs) = set xs"
  by (induction xs) auto

lemma set_own_keys: "(k \<in> set (own_keys ps)) = has_key ps k"
  by (auto simp: own_keys_def has_key_def Let_def set_first_occurrences)

lemma has_key_get_option: "get_option ps k \<noteq> OUndefined \<Longrightarrow> has_key ps k"
  using lookup_prop_None [of ps k] by (auto simp: get_option_def split: option.splits)

lemma get_option_Cons:
  "get_option ((k', v) # ps) k
     = (if has_key ps k then get_option ps k else if k = k' then v else OUndefined)"
  using get_option_append [of "[(k', v)]" ps k]
  by (simp add: get_option_def lookup_prop_def)

lemma get_option_no_key: "\<not> has_key ps k \<Longrightarrow> get_option ps k = OUndefined"
  using lookup_prop_None [of ps k] by (simp add: get_option_def)

lemma updatedCookie_concat:
  "updatedCookie name val options
     = encodeURIComponent name @ ''='' @ encodeURIComponent val
       @ concat (map (\<lambda>k. ''; '' @ k
                          @ (if get_option (cookie_options options) k = OBool True then []
                             else ''='' @ to_string (get_option (cookie_options options) k)))
                   (own_keys (cookie_options options)))"
proof -
  have step: "(\<lambda>acc optionKey.
                 (let acc' = acc @ ''; '' @ optionKey;
                      optionValue = get_option (cookie_options options) optionKey
                  in if optionValue \<noteq> OBool True then acc' @ ''='' @ to_string optionValue
                     else acc'))
      = (\<lambda>acc k. acc @ (''; '' @ k
                          @ (if get_option (cookie_options options) k = OBool True then []
                             else ''='' @ to_string (get_option (cookie_options options) k))))"
    by (intro ext) (simp add: Let_def)
  show ?thesis
    unfolding updatedCookie_def Let_def step [unfolded Let_def] foldl_append_concat by simp
qed

lemma expires_under_path:
  "get_option ((''path'', v) # options) ''expires'' = get_option options ''expires''"
  by (simp add: get_option_Cons get_option_no_key)

lemma cookie_options_date:
  "get_option options ''expires'' = ODate d \<Longrightarrow>
   cookie_options options = (''path'', OStr ''/'') # options @ [(''expires'', OStr (toUTCString d))]"
  by (simp add: cookie_options_def expires_under_path)

lemma cookie_options_other:
  "\<forall>d. get_option options ''expires'' \<noteq> ODate d \<Longrightarrow>
   cookie_options options = (''path'', OStr ''/'') # options"
  by (cases "get_option options ''expires''") (simp_all add: cookie_options_def expires_under_path)


lemma cookie_options_cases:
  obtains (date) d where "get_option options ''expires'' = ODate d"
      "cookie_options options
         = (''path'', OStr ''/'') # options @ [(''expires'', OStr (toUTCString d))]"
    | (other) "\<forall>d. get_option options ''expires'' \<noteq> ODate d"
      "cookie_options options = (''path'', OStr ''/'') # options"
  using cookie_options_date cookie_options_other by blast

lemma has_key_cookie_options: "has_key options k \<Longrightarrow> has_key (cookie_options options) k"
  by (cases options rule: cookie_options_cases) (simp_all add: has_key_append has_key_Cons)

lemma cookie_options_path:
  assumes "\<not> has_key options ''path''"
  shows "has_key (cookie_options options) ''path''"
    and "get_option (cookie_options options) ''path'' = OStr ''/''"
proof -
  show "has_key (cookie_options options) ''path''"
    by (cases options rule: cookie_options_cases) (simp_all add: has_key_Cons)
  show "get_option (cookie_options options) ''path'' = OStr ''/''"
    using assms
    by (cases options rule: cookie_options_cases)
       (simp_all add: get_option_Cons get_option_append has_key_append has_key_Cons has_key_Nil)
qed

lemma cookie_options_expires:
  assumes "get_option options ''expires'' = ODate d"
  shows "has_key (cookie_options options) ''expires''"
    and "get_option (cookie_options options) ''expires'' = OStr (toUTCString d)"
  using cookie_options_date [OF assms]
  by (simp_all add: has_key_append has_key_Cons get_option_Cons get_option_append has_key_Nil)

lemma cookie_options_flag:
  assumes "get_option options k = OBool True"
  shows "has_key (cookie_options options) k"
    and "get_option (cookie_options options) k = OBool True"
proof -
  have key: "has_key options k"
    using assms has_key_get_option [of options k] by simp
  then show "has_key (cookie_options options) k"
    by (rule has_key_cookie_options)
  show "get_option (cookie_options options) k = OBool True"
  proof (cases options rule: cookie_options_cases)
    case (date d)
    then have "k \<noteq> ''expires''"
      using assms by auto
    then show ?thesis
      using date key assms
      by (simp add: get_option_Cons get_option_append has_key_append has_key_Cons has_key_Nil)
  next
    case other
    then show ?thesis
      using key assms by (simp add: get_option_Cons)
  qed
qed

subsection \<open>Evaluations on the example environments\<close>

lemma cookie_match_examples:
  "cookie_match ''sk'' ''sk=tok'' = Some ''tok''"
  "cookie_match ''sk'' ''a=1'' = None"
  "cookie_match ''sk'' ''sk='' = Some []"
  by code_simp+

lemma decodeURIComponent_examples:
  "decodeURIComponent ''tok'' = Inr ''tok''"
  "decodeURIComponent [] = Inr []"
  by code_simp+

lemma encodeURIComponent_examples:
  "encodeURIComponent ''abc'' = ''abc''"
  "encodeURIComponent ''hello'' = ''hello''"
  "encodeURIComponent ''a b'' = ''a%20b''"
  by code_simp+


lemma getCookie_browser:
  "getCookie (browser ''sk=tok'') ''sk'' = ([], Inr (Some ''tok''))"
  "getCookie (browser ''a=1'') ''sk'' = ([], Inr None)"
  "getCookie (browser ''sk='') ''sk'' = ([], Inr (Some []))"
  "getCookie (browser_offline ''a=1'') ''sk'' = ([], Inr None)"
  by (simp_all add: getCookie_def browser_def browser_offline_def cookie_match_examples
      decodeURIComponent_examples return_io_def)

lemma getToken_browser_tok: "getToken (browser ''sk=tok'') = ([], Inr ''tok'')"
  by (simp add: getToken_def getCookie_browser bind_io_def return_io_def)


section \<open>The claims\<close>

text \<open>
  Claim C1 (as amended). A call of \<^verbatim>\<open>resourceAction\<close> or \<^verbatim>\<open>recordAction\<close> hands one request to
  the transport, or none when \<^verbatim>\<open>data\<close> is truthy and \<^verbatim>\<open>getToken\<close> fails. The \<^verbatim>\<open>method\<close> of that
  request is the caller's own \<^verbatim>\<open>method\<close> option when the options object has a \<^verbatim>\<open>method\<close> key
  (the options are spread after the computed method); otherwise it is \<^verbatim>\<open>POST\<close> when \<^verbatim>\<open>data\<close>
  is truthy and \<^verbatim>\<open>GET\<close> when it is not.
\<close>

theorem action_method:
  "issued_methods (resourceAction e ro) =
     (if truthy (data ro) \<and> isl (snd (getToken e)) then []
      else [if has_key (config ro) ''method'' then get_prop (config ro) ''method''
            else JStr (if truthy (data ro) then ''POST'' else ''GET'')])
   \<and> issued_methods (recordAction e rc) =
     (if truthy (data rc) \<and> isl (snd (getToken e)) then []
      else [if has_key (config rc) ''method'' then get_prop (config rc) ''method''
            else JStr (if truthy (data rc) then ''POST'' else ''GET'')])"
  by (cases "snd (getToken e)")
     (simp_all add: issued_methods_def requests_of_resourceAction requests_of_recordAction config_simps)

text \<open>
  On a page whose cookie \<^verbatim>\<open>sk\<close> is \<^verbatim>\<open>tok\<close>: a resource action without data goes out as
  \<^verbatim>\<open>GET\<close>, a record action with data as \<^verbatim>\<open>POST\<close>.
\<close>

theorem action_method_witness:
  "issued_methods (resourceAction (browser ''sk=tok'')
      \<lparr>resourceId = ''Comments'', actionName = ''list'', data = JUndefined,
       config = [], query = None\<rparr>) = [JStr ''GET'']
   \<and> issued_methods (recordAction (browser ''sk=tok'')
      \<lparr>resourceId = ''Comments'', actionName = ''edit'', data = JObj [(''title'', JStr ''x'')],
       config = [], recordId = ''7''\<rparr>) = [JStr ''POST'']"
  using action_method [of "browser ''sk=tok''"
      "\<lparr>resourceId = ''Comments'', actionName = ''list'', data = JUndefined,
        config = [], query = None\<rparr>"
      "\<lparr>resourceId = ''Comments'', actionName = ''edit'', data = JObj [(''title'', JStr ''x'')],
        config = [], recordId = ''7''\<rparr>"]
  by (simp add: getToken_browser_tok has_key_Nil)

text \<open>
  Claim C1 as stated fails: \<^verbatim>\<open>resourceAction({ resourceId: 'Comments', actionName: 'list',
  method: 'DELETE' })\<close> has no \<^verbatim>\<open>data\<close>, and its request goes out with the method
  \<^verbatim>\<open>DELETE\<close>, not \<^verbatim>\<open>GET\<close>.
\<close>

theorem action_method_counterexample:
  "issued_methods (resourceAction (browser ''sk=tok'')
      \<lparr>resourceId = ''Comments'', actionName = ''list'', data = JUndefined,
       config = [(''method'', JStr ''DELETE'')], query = None\<rparr>) = [JStr ''DELETE'']"
  by (simp add: issued_methods_def requests_of_resourceAction omit_def get_prop_Cons has_key_Cons
      has_key_Nil get_prop_Nil)

text \<open>
  Claim C2 (as amended). A call of \<^verbatim>\<open>bulkAction\<close> hands one request to the transport, or none
  when the \<^verbatim>\<open>method\<close> option or \<^verbatim>\<open>data\<close> is truthy and \<^verbatim>\<open>getToken\<close> fails. The \<^verbatim>\<open>method\<close> of
  that request is the caller's own \<^verbatim>\<open>method\<close> option when the options object has a \<^verbatim>\<open>method\<close>
  key; otherwise it is \<^verbatim>\<open>POST\<close> when \<^verbatim>\<open>data\<close> is truthy and \<^verbatim>\<open>GET\<close> when it is not.
\<close>

theorem bulkAction_method:
  "issued_methods (bulkAction e bo) =
     (if (truthy (get_prop (config bo) ''method'') \<or> truthy (data bo)) \<and> isl (snd (getToken e))
      then []
      else [if has_key (config bo) ''method'' then get_prop (config bo) ''method''
            else JStr (if truthy (data bo) then ''POST'' else ''GET'')])"
  by (cases "snd (getToken e)"; cases "has_key (config bo) ''method''")
     (simp_all add: issued_methods_def requests_of_bulkAction config_simps)

text \<open>A bulk action with \<^verbatim>\<open>data\<close> and no \<^verbatim>\<open>method\<close> option goes out as \<^verbatim>\<open>POST\<close>.\<close>

theorem bulkAction_method_witness:
  "issued_methods (bulkAction (browser ''sk=tok'')
      \<lparr>resourceId = ''Comments'', actionName = ''delete'', data = JObj [],
       config = [], recordIds = Some [''1'', ''2'']\<rparr>) = [JStr ''POST'']"
  using bulkAction_method [of "browser ''sk=tok''"
      "\<lparr>resourceId = ''Comments'', actionName = ''delete'', data = JObj [],
        config = [], recordIds = Some [''1'', ''2'']\<rparr>"]
  by (simp add: getToken_browser_tok has_key_Nil)

text \<open>
  Claim C2 as stated fails: \<^verbatim>\<open>bulkAction({ resourceId: 'Comments', actionName: 'export',
  recordIds: ['1', '2'], method: 'GET' })\<close> sets an explicit method, and its request goes out
  with the method \<^verbatim>\<open>GET\<close>, not \<^verbatim>\<open>POST\<close>.
\<close>

theorem bulkAction_method_counterexample:
  "issued_methods (bulkAction (browser ''sk=tok'')
      \<lparr>resourceId = ''Comments'', actionName = ''export'', data = JUndefined,
       config = [(''method'', JStr ''GET'')], recordIds = Some [''1'', ''2'']\<rparr>) = [JStr ''GET'']"
  by (simp add: issued_methods_def requests_of_bulkAction getToken_browser_tok config_simps
      has_headers_with_csrf)






text \<open>
  Claim C5. When \<^verbatim>\<open>getToken\<close> has sent its request to the token endpoint and the request
  fails with an error, \<^verbatim>\<open>getToken\<close> rejects with a new \<^verbatim>\<open>Error\<close> whose message is
  \<^verbatim>\<open>CSRF token error: \<close> followed by the original error converted to a string; that one request
  is the only effect: there is no retry and no cookie is written.
\<close>

theorem getToken_wraps_failure:
  assumes "token_requests_of (getToken e) \<noteq> []" and "csrfClient_get e [] = Inl err"
  shows "getToken e
    = ([CsrfClientGet []], Inl (Exn ''Error'' (''CSRF token error: '' @ exn_to_string err)))"
proof (cases e "''sk''" rule: getCookie_cases)
  case undefined_document
  then show ?thesis
    using assms(1) by (simp add: getToken_def bind_io_def token_requests_of_def)
next
  case (malformed cookie err')
  then show ?thesis
    using assms(1) by (simp add: getToken_def bind_io_def token_requests_of_def)
next
  case (found cookie v)
  show ?thesis
  proof (cases "\<exists>t. v = Some t \<and> t \<noteq> []")
    case True
    then show ?thesis
      using assms(1) found
      by (auto simp: getToken_def bind_io_def token_requests_of_def return_io_def)
  next
    case False
    then have "getToken e = requestToken e"
      using found by (cases v) (auto simp: getToken_def bind_io_def split: prod.splits)
    then show ?thesis
      using requestToken_fails [OF assms(2)] by (simp add: new_Error_def)
  qed
qed

text \<open>
  No cookie \<^verbatim>\<open>sk\<close> and the token endpoint down with \<^verbatim>\<open>Error: Network Error\<close>: the caller gets
  the error \<^verbatim>\<open>CSRF token error: Error: Network Error\<close> after one request.
\<close>

theorem getToken_wraps_failure_witness:
  "getToken (browser_offline ''a=1'')
     = ([CsrfClientGet []], Inl (Exn ''Error'' ''CSRF token error: Error: Network Error''))"
proof -
  have down: "csrfClient_get (browser_offline ''a=1'') [] = Inl (Exn ''Error'' ''Network Error'')"
    by (simp add: browser_offline_def)
  have "getToken (browser_offline ''a=1'') = requestToken (browser_offline ''a=1'')"
    by (simp add: getToken_def getCookie_browser bind_io_def)
  then have sent: "token_requests_of (getToken (browser_offline ''a=1'')) \<noteq> []"
    using requestToken_fails [OF down] by (simp add: token_requests_of_def)
  show ?thesis
    using getToken_wraps_failure [OF sent down] by (simp add: exn_to_string_def)
qed

text \<open>
  Claim C6. The request of a \<^verbatim>\<open>bulkAction\<close> call has as \<^verbatim>\<open>params\<close> a \<^verbatim>\<open>URLSearchParams\<close> with the
  single entry \<^verbatim>\<open>recordIds\<close>, whose value is the input list of record identifiers joined with
  commas (an absent list counts as empty); the empty list gives the empty string. The caller's
  own \<^verbatim>\<open>params\<close> option cannot change it.
\<close>

theorem bulkAction_recordIds:
  "issued_params (bulkAction e bo) =
     (if (truthy (get_prop (config bo) ''method'') \<or> truthy (data bo)) \<and> isl (snd (getToken e))
      then []
      else [JURLSearchParams
              [(''recordIds'', join '','' (case recordIds bo of None \<Rightarrow> [] | Some ids \<Rightarrow> ids))]])
   \<and> join '','' [] = []"
  by (cases "snd (getToken e)")
     (simp_all add: issued_params_def requests_of_bulkAction config_simps)

text \<open>The identifiers \<^verbatim>\<open>['1', '2']\<close> are sent as \<^verbatim>\<open>1,2\<close>, the empty list as the empty string.\<close>

theorem bulkAction_recordIds_witness:
  "issued_params (bulkAction (browser ''sk=tok'')
      \<lparr>resourceId = ''Comments'', actionName = ''delete'', data = JObj [],
       config = [(''params'', JObj [(''recordIds'', JStr ''9'')])],
       recordIds = Some [''1'', ''2'']\<rparr>)
     = [JURLSearchParams [(''recordIds'', ''1,2'')]]
   \<and> issued_params (bulkAction (browser ''sk=tok'')
      \<lparr>resourceId = ''Comments'', actionName = ''list'', data = JUndefined,
       config = [], recordIds = Some []\<rparr>)
     = [JURLSearchParams [(''recordIds'', [])]]"
  using bulkAction_recordIds [of "browser ''sk=tok''"
      "\<lparr>resourceId = ''Comments'', actionName = ''delete'', data = JObj [],
        config = [(''params'', JObj [(''recordIds'', JStr ''9'')])],
        recordIds = Some [''1'', ''2'']\<rparr>"]
    bulkAction_recordIds [of "browser ''sk=tok''"
      "\<lparr>resourceId = ''Comments'', actionName = ''list'', data = JUndefined,
        config = [], recordIds = Some []\<rparr>"]
  by (simp add: getToken_browser_tok get_prop_Nil)

lemma client_request_browser:
  "client_request (browser cookie) c
     = Inr \<lparr>response_data = JObj [(''records'', JArr [])],
            responseURL = ''http://localhost:3000/admin/api''\<rparr>"
  by (simp add: browser_def)

lemma checkResponse_browser:
  "checkResponse (browser cookie)
     \<lparr>response_data = d, responseURL = ''http://localhost:3000/admin/api''\<rparr> = ([], Inr ())"
  by (simp add: checkResponse_def browser_def return_io_def)

text \<open>
  Claim C7. Outside a browser (\<^verbatim>\<open>isOnServer\<close>) \<^verbatim>\<open>searchRecords\<close> returns the empty list and has
  no effect at all. In a browser it issues exactly one request and no token request; the
  request has the method \<^verbatim>\<open>GET\<close> and the URL of the resource action \<^verbatim>\<open>search\<close>, with the encoded
  query as a further segment when the query is not empty; and the call returns
  \<^verbatim>\<open>response.data.records\<close> of the response, unless the request or one of the session checks
  throws, which is then the outcome.
\<close>

theorem searchRecords_result:
  "(isOnServer e \<longrightarrow> searchRecords e p = ([], Inr (JArr [])))
   \<and> (\<not> isOnServer e \<longrightarrow>
        (\<exists>c. requests_of (searchRecords e p) = [c]
           \<and> token_requests_of (searchRecords e p) = []
           \<and> get_prop c ''method'' = JStr ''GET''
           \<and> get_prop c ''url''
               = JStr (''/api/resources/'' @ search_resourceId p @ ''/actions/search''
                       @ (if search_query p \<noteq> [] then ''/'' @ encodeURIComponent (search_query p)
                          else []))
           \<and> snd (searchRecords e p)
               = (case client_request e c of
                    Inl err \<Rightarrow> Inl err
                  | Inr response \<Rightarrow>
                      (case snd (checkResponse e response) of
                         Inl err \<Rightarrow> Inl err
                       | Inr u \<Rightarrow> snd (get_member (response_data response) ''records'')))))"
proof (intro conjI impI)
  assume "isOnServer e"
  then show "searchRecords e p = ([], Inr (JArr []))"
    by (simp add: searchRecords_def return_io_def)
next
  assume in_browser: "\<not> isOnServer e"
  define ro :: ResourceActionAPIParams where
    "ro = \<lparr>resourceId = search_resourceId p, actionName = ''search'', data = JUndefined,
           config = (case searchProperty p of
                       None \<Rightarrow> []
                     | Some sp \<Rightarrow>
                         if sp \<noteq> [] then [(''params'', JObj [(''searchProperty'', JStr sp)])]
                         else []),
           query = Some (search_query p)\<rparr>"
  define c where "c = hd (requests_of (resourceAction e ro))"
  have no_data: "\<not> truthy (data ro)"
    by (simp add: ro_def)
  have no_key: "\<not> has_key (config ro) ''method''" "\<not> has_key (config ro) ''url''"
    by (cases "searchProperty p"; simp add: ro_def has_key_Cons has_key_Nil)+
  have reqs: "requests_of (resourceAction e ro) = [c]"
    unfolding c_def by (simp add: requests_of_resourceAction no_data)
  have search: "searchRecords e p
      = bind_io (resourceAction e ro) (\<lambda>response.
          bind_io (checkResponse e response) (\<lambda>_.
          get_member (response_data response) ''records''))"
    using in_browser by (simp add: searchRecords_def ro_def)
  have r1: "requests_of (searchRecords e p) = [c]"
    by (simp add: search requests_of_bind_io reqs requests_of_checkResponse requests_of_get_member
        cong: sum.case_cong)
  have r2: "token_requests_of (searchRecords e p) = []"
    by (simp add: search token_simps token_requests_of_resourceAction_GET [OF no_data]
        cong: sum.case_cong)
  have r3: "get_prop c ''method'' = JStr ''GET''"
    using no_data no_key
    by (simp add: c_def requests_of_resourceAction config_simps)
  have r4: "get_prop c ''url''
      = JStr (''/api/resources/'' @ search_resourceId p @ ''/actions/search''
              @ (if search_query p \<noteq> [] then ''/'' @ encodeURIComponent (search_query p) else []))"
    using no_data no_key
    by (simp add: c_def requests_of_resourceAction config_simps) (simp add: ro_def)
  have r5: "snd (searchRecords e p)
      = (case client_request e c of
           Inl err \<Rightarrow> Inl err
         | Inr response \<Rightarrow>
             (case snd (checkResponse e response) of
                Inl err \<Rightarrow> Inl err
              | Inr u \<Rightarrow> snd (get_member (response_data response) ''records'')))"
    by (simp add: search snd_bind_io snd_resourceAction_GET [OF no_data reqs] split: sum.splits)
  show "\<exists>c. requests_of (searchRecords e p) = [c]
           \<and> token_requests_of (searchRecords e p) = []
           \<and> get_prop c ''method'' = JStr ''GET''
           \<and> get_prop c ''url''
               = JStr (''/api/resources/'' @ search_resourceId p @ ''/actions/search''
                       @ (if search_query p \<noteq> [] then ''/'' @ encodeURIComponent (search_query p)
                          else []))
           \<and> snd (searchRecords e p)
               = (case client_request e c of
                    Inl err \<Rightarrow> Inl err
                  | Inr response \<Rightarrow>
                      (case snd (checkResponse e response) of
                         Inl err \<Rightarrow> Inl err
                       | Inr u \<Rightarrow> snd (get_member (response_data response) ''records'')))"
    using r1 r2 r3 r4 r5 by blast
qed

text \<open>
  On the server the search returns \<^verbatim>\<open>[]\<close> at once. In the browser the search for \<^verbatim>\<open>hello\<close> in
  \<^verbatim>\<open>Comments\<close> is one \<^verbatim>\<open>GET\<close> of \<^verbatim>\<open>/api/resources/Comments/actions/search/hello\<close> and returns the
  records of the answer (here none).
\<close>

theorem searchRecords_result_witness:
  "searchRecords server
      \<lparr>search_resourceId = ''Comments'', search_query = ''hello'', searchProperty = None\<rparr>
     = ([], Inr (JArr []))
   \<and> issued_methods (searchRecords (browser ''sk=tok'')
        \<lparr>search_resourceId = ''Comments'', search_query = ''hello'', searchProperty = None\<rparr>)
     = [JStr ''GET'']
   \<and> issued_urls (searchRecords (browser ''sk=tok'')
        \<lparr>search_resourceId = ''Comments'', search_query = ''hello'', searchProperty = None\<rparr>)
     = [JStr ''/api/resources/Comments/actions/search/hello'']
   \<and> snd (searchRecords (browser ''sk=tok'')
        \<lparr>search_resourceId = ''Comments'', search_query = ''hello'', searchProperty = None\<rparr>)
     = Inr (JArr [])"
proof -
  let ?p = "\<lparr>search_resourceId = ''Comments'', search_query = ''hello'', searchProperty = None\<rparr>"
  have on_server: "isOnServer server"
    by (simp add: server_def)
  have in_browser: "\<not> isOnServer (browser ''sk=tok'')"
    by (simp add: browser_def)
  have "searchRecords server ?p = ([], Inr (JArr []))"
    using searchRecords_result [of server ?p] on_server by blast
  moreover obtain c where c: "requests_of (searchRecords (browser ''sk=tok'') ?p) = [c]"
      "get_prop c ''method'' = JStr ''GET''"
      "get_prop c ''url''
         = JStr (''/api/resources/'' @ search_resourceId ?p @ ''/actions/search''
                 @ (if search_query ?p \<noteq> [] then ''/'' @ encodeURIComponent (search_query ?p)
                    else []))"
      "snd (searchRecords (browser ''sk=tok'') ?p)
         = (case client_request (browser ''sk=tok'') c of
              Inl err \<Rightarrow> Inl err
            | Inr response \<Rightarrow>
                (case snd (checkResponse (browser ''sk=tok'') response) of
                   Inl err \<Rightarrow> Inl err
                 | Inr u \<Rightarrow> snd (get_member (response_data response) ''records'')))"
    using searchRecords_result [of "browser ''sk=tok''" ?p] in_browser by blast
  ultimately show ?thesis
    by (simp add: issued_methods_def issued_urls_def client_request_browser checkResponse_browser
        get_member_def return_io_def get_prop_Cons has_key_Nil encodeURIComponent_examples)
qed

text \<open>
  Claim C8 (as amended). The \<^verbatim>\<open>url\<close> of the request of a \<^verbatim>\<open>resourceAction\<close> call is the caller's
  own \<^verbatim>\<open>url\<close> option when the options object has a \<^verbatim>\<open>url\<close> key (the options are spread after
  the computed URL); otherwise it is \<^verbatim>\<open>/api/resources/{resourceId}/actions/{actionName}\<close>,
  followed, when the query is a non-empty string, by \<^verbatim>\<open>/\<close> and the query encoded by
  \<^verbatim>\<open>encodeURIComponent\<close>.
\<close>

theorem resourceAction_url:
  "issued_urls (resourceAction e ro) =
     (if truthy (data ro) \<and> isl (snd (getToken e)) then []
      else [if has_key (config ro) ''url'' then get_prop (config ro) ''url''
            else JStr (''/api/resources/'' @ resourceId ro @ ''/actions/'' @ actionName ro
                       @ (case query ro of
                            None \<Rightarrow> []
                          | Some q \<Rightarrow> if q \<noteq> [] then ''/'' @ encodeURIComponent q else []))])"
  by (cases "snd (getToken e)"; cases "query ro")
     (simp_all add: issued_urls_def requests_of_resourceAction config_simps)

text \<open>The query \<^verbatim>\<open>a b\<close> becomes the segment \<^verbatim>\<open>a%20b\<close>.\<close>

theorem resourceAction_url_witness:
  "issued_urls (resourceAction (browser ''sk=tok'')
      \<lparr>resourceId = ''Comments'', actionName = ''search'', data = JUndefined,
       config = [], query = Some ''a b''\<rparr>)
     = [JStr ''/api/resources/Comments/actions/search/a%20b'']"
  using resourceAction_url [of "browser ''sk=tok''"
      "\<lparr>resourceId = ''Comments'', actionName = ''search'', data = JUndefined,
        config = [], query = Some ''a b''\<rparr>"]
  by (simp add: has_key_Nil encodeURIComponent_examples)

text \<open>
  Claim C8 as stated fails: \<^verbatim>\<open>resourceAction({ resourceId: 'Comments', actionName: 'list',
  query: 'hello', url: '/api/dashboard' })\<close> sends its request to \<^verbatim>\<open>/api/dashboard\<close>; and with
  the query \<^verbatim>\<open>''\<close> no segment is appended.
\<close>

theorem resourceAction_url_counterexample:
  "issued_urls (resourceAction (browser ''sk=tok'')
      \<lparr>resourceId = ''Comments'', actionName = ''list'', data = JUndefined,
       config = [(''url'', JStr ''/api/dashboard'')], query = Some ''hello''\<rparr>)
     = [JStr ''/api/dashboard'']
   \<and> issued_urls (resourceAction (browser ''sk=tok'')
      \<lparr>resourceId = ''Comments'', actionName = ''list'', data = JUndefined,
       config = [], query = Some []\<rparr>)
     = [JStr ''/api/resources/Comments/actions/list'']"
  by (simp add: issued_urls_def requests_of_resourceAction omit_def get_prop_Cons has_key_Cons
      has_key_Nil get_prop_Nil)

text \<open>
  Claim C9. \<^verbatim>\<open>setCookie\<close> assigns to \<^verbatim>\<open>document.cookie\<close> the string made of the URL-encoded name,
  \<^verbatim>\<open>=\<close>, the URL-encoded value, and then for each option key in enumeration order \<^verbatim>\<open>; key\<close>,
  followed by \<^verbatim>\<open>=value\<close> unless the value is the boolean \<^verbatim>\<open>true\<close>, which leaves the bare flag.
  The options serialised are the caller's with \<^verbatim>\<open>path\<close> set to \<^verbatim>\<open>/\<close> when the caller gave no
  \<^verbatim>\<open>path\<close>, and with a \<^verbatim>\<open>Date\<close> under \<^verbatim>\<open>expires\<close> replaced by its \<^verbatim>\<open>toUTCString()\<close>.
\<close>

theorem setCookie_serialisation:
  "updatedCookie name val options
     = encodeURIComponent name @ ''='' @ encodeURIComponent val
       @ concat (map (\<lambda>k. ''; '' @ k
                          @ (if get_option (cookie_options options) k = OBool True then []
                             else ''='' @ to_string (get_option (cookie_options options) k)))
                   (own_keys (cookie_options options)))
   \<and> (\<not> has_key options ''path'' \<longrightarrow>
        ''path'' \<in> set (own_keys (cookie_options options))
        \<and> get_option (cookie_options options) ''path'' = OStr ''/'')
   \<and> (\<forall>d. get_option options ''expires'' = ODate d \<longrightarrow>
        ''expires'' \<in> set (own_keys (cookie_options options))
        \<and> get_option (cookie_options options) ''expires'' = OStr (toUTCString d))
   \<and> (\<forall>k. get_option options k = OBool True \<longrightarrow>
        k \<in> set (own_keys (cookie_options options))
        \<and> get_option (cookie_options options) k = OBool True)
   \<and> (document_cookie e \<noteq> None \<longrightarrow>
        setCookie e name val options
          = ([SetDocumentCookie (updatedCookie name val options)], Inr ()))"
proof (intro conjI allI impI)
  show "updatedCookie name val options
     = encodeURIComponent name @ ''='' @ encodeURIComponent val
       @ concat (map (\<lambda>k. ''; '' @ k
                          @ (if get_option (cookie_options options) k = OBool True then []
                             else ''='' @ to_string (get_option (cookie_options options) k)))
                   (own_keys (cookie_options options)))"
    by (rule updatedCookie_concat)
next
  assume "\<not> has_key options ''path''"
  then show "''path'' \<in> set (own_keys (cookie_options options))"
    and "get_option (cookie_options options) ''path'' = OStr ''/''"
    by (simp_all add: set_own_keys cookie_options_path)
next
  fix d
  assume "get_option options ''expires'' = ODate d"
  then show "''expires'' \<in> set (own_keys (cookie_options options))"
    and "get_option (cookie_options options) ''expires'' = OStr (toUTCString d)"
    by (simp_all add: set_own_keys cookie_options_expires)
next
  fix k
  assume "get_option options k = OBool True"
  then show "k \<in> set (own_keys (cookie_options options))"
    and "get_option (cookie_options options) k = OBool True"
    by (simp_all add: set_own_keys cookie_options_flag)
next
  assume "document_cookie e \<noteq> None"
  then show "setCookie e name val options
          = ([SetDocumentCookie (updatedCookie name val options)], Inr ())"
    by (auto simp: setCookie_def)
qed

lemma own_keys_example: "own_keys [(''path'', a), (''secure'', b), (''expires'', c), (''expires'', d)]
    = [''path'', ''secure'', ''expires'']"
  by (simp add: own_keys_def array_index_def is_digit_def)

text \<open>
  The cookie \<^verbatim>\<open>sk\<close> with the value \<^verbatim>\<open>a b\<close>, the flag \<^verbatim>\<open>secure\<close> and a \<^verbatim>\<open>Date\<close> as expiry: the value
  is encoded, the path is \<^verbatim>\<open>/\<close>, \<^verbatim>\<open>secure\<close> stands alone and the expiry is the UTC string.
\<close>

theorem setCookie_serialisation_witness:
  "setCookie (browser []) ''sk'' ''a b''
      [(''secure'', OBool True),
       (''expires'', ODate (Date ''Tue, 03 Nov 2026 00:00:00 GMT''
                                 ''Tue Nov 03 2026 01:00:00 GMT+0100''))]
     = ([SetDocumentCookie ''sk=a%20b; path=/; secure; expires=Tue, 03 Nov 2026 00:00:00 GMT''],
        Inr ())"
proof -
  let ?d = "Date ''Tue, 03 Nov 2026 00:00:00 GMT'' ''Tue Nov 03 2026 01:00:00 GMT+0100''"
  let ?options = "[(''secure'', OBool True), (''expires'', ODate ?d)]"
  note facts = setCookie_serialisation [of "''sk''" "''a b''" ?options "browser []"]
  have document: "document_cookie (browser []) \<noteq> None"
    by (simp add: browser_def)
  have no_path: "\<not> has_key ?options ''path''"
    by (simp add: has_key_Cons has_key_Nil)
  have expires: "get_option ?options ''expires'' = ODate ?d"
    by (simp add: get_option_Cons has_key_Cons has_key_Nil)
  have secure: "get_option ?options ''secure'' = OBool True"
    by (simp add: get_option_Cons has_key_Cons has_key_Nil)
  have opts: "cookie_options ?options
      = (''path'', OStr ''/'') # ?options @ [(''expires'', OStr (toUTCString ?d))]"
    using expires by (rule cookie_options_date)
  have keys: "own_keys (cookie_options ?options) = [''path'', ''secure'', ''expires'']"
    by (simp add: opts own_keys_example)
  have final: "get_option (cookie_options ?options) ''path'' = OStr ''/''"
      "get_option (cookie_options ?options) ''expires'' = OStr (toUTCString ?d)"
      "get_option (cookie_options ?options) ''secure'' = OBool True"
    using facts no_path expires secure by blast+
  have "updatedCookie ''sk'' ''a b'' ?options
      = encodeURIComponent ''sk'' @ ''='' @ encodeURIComponent ''a b''
        @ concat (map (\<lambda>k. ''; '' @ k
                           @ (if get_option (cookie_options ?options) k = OBool True then []
                              else ''='' @ to_string (get_option (cookie_options ?options) k)))
                    (own_keys (cookie_options ?options)))"
    by (rule facts [THEN conjunct1])
  also have "\<dots> = ''sk=a%20b; path=/; secure; expires=Tue, 03 Nov 2026 00:00:00 GMT''"
    by (simp add: keys final encodeURIComponent_sk encodeURIComponent_examples)
  finally have "updatedCookie ''sk'' ''a b'' ?options
      = ''sk=a%20b; path=/; secure; expires=Tue, 03 Nov 2026 00:00:00 GMT''" .
  then show ?thesis
    using facts document by simp
qed

text \<open>
  Claim C10. When the transport options of a \<^verbatim>\<open>bulkAction\<close> call have a truthy \<^verbatim>\<open>method\<close> and
  \<^verbatim>\<open>data\<close> is not truthy, the call starts with \<^verbatim>\<open>getToken\<close>; if that fails the call fails with
  its error and nothing is sent; if it returns a token, the one request issued carries the
  token as \<^verbatim>\<open>X-Csrf-Token\<close> and has the caller's \<^verbatim>\<open>method\<close>, not the computed \<^verbatim>\<open>POST\<close>.
\<close>

theorem bulkAction_explicit_method:
  assumes "truthy (get_prop (config bo) ''method'')" and "\<not> truthy (data bo)"
  shows "prefix (fst (getToken e)) (fst (bulkAction e bo))
    \<and> (case snd (getToken e) of
         Inl err \<Rightarrow> bulkAction e bo = (fst (getToken e), Inl err)
       | Inr tok \<Rightarrow>
           issued_csrf_headers (bulkAction e bo) = [JStr tok]
           \<and> issued_methods (bulkAction e bo) = [get_prop (config bo) ''method''])"
proof -
  have shaped: "truthy (get_prop (config bo) ''method'') \<or> truthy (data bo)"
    using assms by simp
  have key: "has_key (config bo) ''method''"
    using assms(1) by (rule_tac ccontr) (simp add: get_prop_no_key)
  show ?thesis
  proof (cases "snd (getToken e)")
    case (Inl err)
    then show ?thesis
      using fst_bulkAction_POST [OF shaped] snd_bulkAction_POST_fails [OF shaped Inl] by simp
  next
    case (Inr tok)
    have "issued_csrf_headers (bulkAction e bo) = [JStr tok]"
      using shaped Inr
      by (simp add: issued_csrf_headers_def requests_of_bulkAction header_of_issued_config
          has_key_Cons has_key_Nil)
    moreover have "issued_methods (bulkAction e bo) = [get_prop (config bo) ''method'']"
      using shaped Inr key
      by (simp add: issued_methods_def requests_of_bulkAction config_simps)
    ultimately show ?thesis
      using fst_bulkAction_POST [OF shaped] Inr by simp
  qed
qed

text \<open>
  The bulk delete \<^verbatim>\<open>bulkAction({ resourceId: 'Comments', actionName: 'delete',
  recordIds: ['1', '2'], method: 'post' })\<close> on a page with the cookie \<^verbatim>\<open>sk=tok\<close>: the request
  carries the token and the method \<^verbatim>\<open>post\<close> as the caller wrote it.
\<close>

theorem bulkAction_explicit_method_witness:
  "issued_csrf_headers (bulkAction (browser ''sk=tok'')
      \<lparr>resourceId = ''Comments'', actionName = ''delete'', data = JUndefined,
       config = [(''method'', JStr ''post'')], recordIds = Some [''1'', ''2'']\<rparr>)
     = [JStr ''tok'']
   \<and> issued_methods (bulkAction (browser ''sk=tok'')
      \<lparr>resourceId = ''Comments'', actionName = ''delete'', data = JUndefined,
       config = [(''method'', JStr ''post'')], recordIds = Some [''1'', ''2'']\<rparr>)
     = [JStr ''post'']"
proof -
  let ?bo = "\<lparr>resourceId = ''Comments'', actionName = ''delete'', data = JUndefined,
       config = [(''method'', JStr ''post'')], recordIds = Some [''1'', ''2'']\<rparr>"
  have explicit: "truthy (get_prop (config ?bo) ''method'')"
    by (simp add: get_prop_Cons has_key_Nil)
  have no_data: "\<not> truthy (data ?bo)"
    by simp
  show ?thesis
    using bulkAction_explicit_method [OF explicit no_data, of "browser ''sk=tok''"]
    by (simp add: getToken_browser_tok get_prop_Cons has_key_Nil)
qed

end
